theory Spec2Isabelle
  imports
    Main
    "HOL-Library.AList"
    "HOL-Library.Sublist"
    "HOL-Library.Multiset"
    "HOL-Library.Char_ord"
    "HOL-Library.List_Lexorder"
begin

section \<open>The Zephyr documentation domain: code-sample registry\<close>

text \<open>
  A shallow embedding of \<^verbatim>\<open>doc/_extensions/zephyr/domain.py\<close>: the registry of code
  samples kept in the domain data, the directives that fill and list it, the post-transform
  that lists the samples related to an API group, and the resolution of cross-references.

  Python values are modelled as follows.
  \<^item> \<^verbatim>\<open>str\<close> is \<open>string\<close>; the development reads every character as one code point and
    treats case folding on the ASCII letters only.
  \<^item> \<^verbatim>\<open>dict\<close> is an association list in insertion order with pairwise distinct keys:
    iteration order is observable (the listings sort stably), so a plain map would lose it.
  \<^item> a docutils node is reduced to the fields the extension reads or writes.
  \<^item> an exception is a value \<open>Inl e\<close> of a sum type.
\<close>

subsection \<open>Python built-ins used by the extension\<close>

datatype py_error = KeyError

type_synonym ('k, 'v) dict = "('k \<times> 'v) list"

text \<open>\<^verbatim>\<open>k in d\<close>\<close>

definition dict_contains :: "('k, 'v) dict \<Rightarrow> 'k \<Rightarrow> bool" where
  "dict_contains d k = (k \<in> set (map fst d))"

text \<open>\<^verbatim>\<open>d.get(k)\<close>: \<open>None\<close> for a missing key.\<close>

definition dict_get :: "('k, 'v) dict \<Rightarrow> 'k \<Rightarrow> 'v option" where
  "dict_get d k = map_of d k"

text \<open>\<^verbatim>\<open>d[k]\<close>: raises \<^verbatim>\<open>KeyError\<close> for a missing key.\<close>

definition dict_getitem :: "('k, 'v) dict \<Rightarrow> 'k \<Rightarrow> py_error + 'v" where
  "dict_getitem d k = (case map_of d k of None \<Rightarrow> Inl KeyError | Some v \<Rightarrow> Inr v)"

text \<open>\<^verbatim>\<open>d[k] = v\<close>: an existing key keeps its position, a new key goes last.\<close>

definition dict_setitem :: "('k, 'v) dict \<Rightarrow> 'k \<Rightarrow> 'v \<Rightarrow> ('k, 'v) dict" where
  "dict_setitem d k v = AList.update k v d"

text \<open>\<^verbatim>\<open>d.update(other)\<close>: one item assignment per item of \<^verbatim>\<open>other\<close>, in its order.\<close>

definition dict_update :: "('k, 'v) dict \<Rightarrow> ('k, 'v) dict \<Rightarrow> ('k, 'v) dict" where
  "dict_update d other = fold (\<lambda>(k, v) acc. dict_setitem acc k v) other d"

text \<open>\<^verbatim>\<open>d.values()\<close>\<close>

definition dict_values :: "('k, 'v) dict \<Rightarrow> 'v list" where
  "dict_values d = map snd d"

text \<open>\<^verbatim>\<open>len(d)\<close>\<close>

definition dict_len :: "('k, 'v) dict \<Rightarrow> nat" where
  "dict_len d = length d"

text \<open>\<^verbatim>\<open>str.isspace\<close> on one character of the ASCII range.\<close>

definition isspace :: "char \<Rightarrow> bool" where
  "isspace c = ((of_char c :: nat) \<in> {9, 10, 11, 12, 13, 28, 29, 30, 31, 32})"

text \<open>\<^verbatim>\<open>s.split()\<close>: the maximal runs of non-whitespace characters, in order.\<close>

fun split_from :: "string \<Rightarrow> string \<Rightarrow> string list" where
  "split_from w [] = (if w = [] then [] else [w])"
| "split_from w (c # cs) =
     (if isspace c then (if w = [] then split_from [] cs else w # split_from [] cs)
      else split_from (w @ [c]) cs)"

definition str_split :: "string \<Rightarrow> string list" where
  "str_split s = split_from [] s"

text \<open>\<^verbatim>\<open>s.casefold()\<close> on ASCII text: the upper-case letters become lower-case.\<close>

definition casefold_char :: "char \<Rightarrow> char" where
  "casefold_char c =
     (if 65 \<le> (of_char c :: nat) \<and> (of_char c :: nat) \<le> 90
      then char_of ((of_char c :: nat) + 32) else c)"

definition casefold :: "string \<Rightarrow> string" where
  "casefold s = map casefold_char s"

text \<open>\<^verbatim>\<open>s.startswith(p)\<close>\<close>

definition startswith :: "string \<Rightarrow> string \<Rightarrow> bool" where
  "startswith s p = prefix p s"

text \<open>\<^verbatim>\<open>s.rfind('/')\<close>: the index of the last slash, \<open>-1\<close> when there is none.\<close>

definition rfind_sep :: "string \<Rightarrow> int" where
  "rfind_sep p =
     (if CHR ''/'' \<in> set p
      then int (length p) - 1 - int (length (takeWhile (\<lambda>c. c \<noteq> CHR ''/'') (rev p)))
      else - 1)"

text \<open>\<^verbatim>\<open>s.rstrip('/')\<close>\<close>

definition rstrip_sep :: "string \<Rightarrow> string" where
  "rstrip_sep s = rev (dropWhile (\<lambda>c. c = CHR ''/'') (rev s))"

text \<open>
  \<^verbatim>\<open>os.path.dirname\<close> of the POSIX flavour:
  \<^verbatim>\<open>
  i = p.rfind(sep) + 1
  head = p[:i]
  if head and head != sep*len(head):
      head = head.rstrip(sep)
  return head
  \<close>
\<close>

definition dirname :: "string \<Rightarrow> string" where
  "dirname p =
     (let i = rfind_sep p + 1;
          head = take (nat i) p
      in if head \<noteq> [] \<and> head \<noteq> replicate (length head) CHR ''/''
         then rstrip_sep head else head)"

subsection \<open>Data model\<close>

text \<open>
  The description of a sample or a category is a \<^verbatim>\<open>nodes.container\<close> holding the parsed
  content of the directive; the extension only reads its \<^verbatim>\<open>astext()\<close>.
\<close>

record container =
  ids :: "string list"
  astext :: string

text \<open>
  A code sample is the dictionary built by \<^verbatim>\<open>CodeSampleDirective.run\<close>, with the keys
  \<^verbatim>\<open>"id"\<close>, \<^verbatim>\<open>"name"\<close>, \<^verbatim>\<open>"description"\<close>, \<^verbatim>\<open>"relevant-api"\<close> and \<^verbatim>\<open>"docname"\<close>.
\<close>

record code_sample =
  ident :: string
  name :: string
  description :: container
  relevant_api :: "string list"
  docname :: string

text \<open>A warning of the logger: its message and its location (document, line).\<close>

record warning =
  message :: string
  location :: "string \<times> int"

text \<open>
  The build environment as far as the extension touches it: the document being read, the
  two dictionaries of \<^verbatim>\<open>domaindata["zephyr"]\<close>, the documents marked as orphans and the
  warnings logged so far.
\<close>

record env =
  env_docname :: string
  code_samples :: "(string, code_sample) dict"
  code_samples_categories :: "(string, container) dict"
  orphans :: "string list"
  reread_always :: "string list"
  warnings :: "warning list"

text \<open>\<^verbatim>\<open>ZephyrDomain.initial_data\<close>\<close>

definition initial_data :: "string \<Rightarrow> env" where
  "initial_data d =
     \<lparr>env_docname = d, code_samples = [], code_samples_categories = [],
      orphans = [], reread_always = [], warnings = []\<rparr>"

subsection \<open>The domain\<close>

text \<open>\<^verbatim>\<open>self.data["code-samples"][code_sample["id"]] = code_sample\<close>\<close>

definition add_code_sample :: "code_sample \<Rightarrow> env \<Rightarrow> env" where
  "add_code_sample code_sample e =
     e\<lparr>code_samples := dict_setitem (code_samples e) (ident code_sample) code_sample\<rparr>"

text \<open>\<^verbatim>\<open>self.data["code-samples-categories"][name] = description\<close>\<close>

definition add_code_sample_category :: "string \<Rightarrow> container \<Rightarrow> env \<Rightarrow> env" where
  "add_code_sample_category n d e =
     e\<lparr>code_samples_categories := dict_setitem (code_samples_categories e) n d\<rparr>"

text \<open>
  \<^verbatim>\<open>clear_doc\<close> rebuilds the dictionary of samples from the items whose
  \<^verbatim>\<open>"docname"\<close> differs from the document; the categories are not touched.
\<close>

definition clear_doc :: "string \<Rightarrow> env \<Rightarrow> env" where
  "clear_doc d e =
     e\<lparr>code_samples := filter (\<lambda>(sample_id, sample_data). docname sample_data \<noteq> d)
                           (code_samples e)\<rparr>"

text \<open>The data of another build shard, as \<^verbatim>\<open>merge_domaindata\<close> receives it.\<close>

record domaindata =
  other_code_samples :: "(string, code_sample) dict"
  other_code_samples_categories :: "(string, container) dict"

definition merge_domaindata :: "domaindata \<Rightarrow> env \<Rightarrow> env" where
  "merge_domaindata otherdata e =
     e\<lparr>code_samples := dict_update (code_samples e) (other_code_samples otherdata),
       code_samples_categories :=
         dict_update (code_samples_categories e) (other_code_samples_categories otherdata)\<rparr>"

text \<open>The data of an environment, as handed to another one for merging.\<close>

definition data_of :: "env \<Rightarrow> domaindata" where
  "data_of e =
     \<lparr>other_code_samples = code_samples e,
      other_code_samples_categories = code_samples_categories e\<rparr>"

subsection \<open>Cross-reference resolution\<close>

text \<open>
  The content of a reference is either the node the role produced (an
  \<^verbatim>\<open>nodes.inline\<close> with the text of the reference) or the list
  \<^verbatim>\<open>[nodes.Text(name)]\<close> that \<^verbatim>\<open>resolve_xref\<close> puts in its place.
\<close>

datatype contnode = Inline string | TextList "string list"

fun contnode_astext :: "contnode \<Rightarrow> string" where
  "contnode_astext (Inline s) = s"
| "contnode_astext (TextList ts) = concat ts"

text \<open>The pending reference: only \<^verbatim>\<open>node.get("refexplicit")\<close> is read.\<close>

record pending_xref =
  refexplicit :: "bool option"

text \<open>
  \<^verbatim>\<open>make_refnode(builder, fromdocname, todocname, targetid, child, title)\<close> belongs to the
  host; the link it builds is kept as the arguments it was given.
\<close>

record refnode =
  ref_fromdocname :: string
  ref_todocname :: string
  ref_targetid :: string
  ref_child :: contnode
  ref_title :: string

definition make_refnode :: "string \<Rightarrow> string \<Rightarrow> string \<Rightarrow> contnode \<Rightarrow> string \<Rightarrow> refnode" where
  "make_refnode fromdocname todocname targetid child title =
     \<lparr>ref_fromdocname = fromdocname, ref_todocname = todocname, ref_targetid = targetid,
      ref_child = child, ref_title = title\<rparr>"

text \<open>Truth value of \<^verbatim>\<open>node.get("refexplicit")\<close>: a missing attribute is \<^verbatim>\<open>None\<close>.\<close>

definition truthy :: "bool option \<Rightarrow> bool" where
  "truthy b = (case b of None \<Rightarrow> False | Some v \<Rightarrow> v)"

text \<open>
  \<^verbatim>\<open>resolve_xref\<close> returns the link, or \<^verbatim>\<open>None\<close> by falling off the end: for another
  reference type and for a target that is not registered.
\<close>

definition resolve_xref ::
  "env \<Rightarrow> string \<Rightarrow> string \<Rightarrow> string \<Rightarrow> pending_xref \<Rightarrow> contnode \<Rightarrow> refnode option" where
  "resolve_xref e fromdocname type target node contnode =
     (if type = ''code-sample'' then
        (case dict_get (code_samples e) target of
           None \<Rightarrow> None
         | Some code_sample_info \<Rightarrow>
             (let contnode' =
                    (if \<not> truthy (refexplicit node) then TextList [name code_sample_info]
                     else contnode)
              in Some (make_refnode fromdocname (docname code_sample_info)
                         (ident code_sample_info) contnode'
                         (astext (description code_sample_info)))))
      else None)"

subsection \<open>Definition lists of code samples\<close>

text \<open>
  One item of the definition list: the term is a pending reference of type
  \<^verbatim>\<open>code-sample\<close> to the sample's id showing the sample's name, the definition is a
  paragraph with the text of the description.
\<close>

record definition_list_item =
  reftarget :: string
  term_text :: string
  definition_text :: string

definition sample_dli :: "code_sample \<Rightarrow> definition_list_item" where
  "sample_dli code_sample =
     \<lparr>reftarget = ident code_sample, term_text = name code_sample,
      definition_text = astext (description code_sample)\<rparr>"

text \<open>
  \<^verbatim>\<open>sorted(code_samples, key=lambda x: x["name"].casefold())\<close>: Python's sort is
  stable, and so is \<open>sort_key\<close>.
\<close>

definition sorted_by_name :: "code_sample list \<Rightarrow> code_sample list" where
  "sorted_by_name samples = sort_key (\<lambda>x. casefold (name x)) samples"

definition create_code_sample_definition_list ::
  "code_sample list \<Rightarrow> definition_list_item list" where
  "create_code_sample_definition_list samples =
     map sample_dli (sorted_by_name samples)"

subsection \<open>The directives and the post-transform\<close>

text \<open>
  A \<^verbatim>\<open>zephyr:code-sample\<close> directive as docutils hands it over: the one required argument,
  the two options (each may be missing), the text of the parsed content and the line.
\<close>

record code_sample_directive =
  argument0 :: string
  option_name :: "string option"
  option_relevant_api :: "string option"
  content_text :: string
  lineno :: int

record code_sample_node =
  node_id :: string
  node_name :: string
  node_description :: container

text \<open>The message of the duplicate warning.\<close>

definition duplicate_message :: "string \<Rightarrow> string \<Rightarrow> string" where
  "duplicate_message code_sample_id other_docname =
     ''Code sample '' @ code_sample_id @ '' already exists. '' @
     ''Other instance in '' @ other_docname"

text \<open>
  The first half of \<^verbatim>\<open>CodeSampleDirective.run\<close>: the document becomes an orphan, and a
  sample already registered under the id is reported. The lookup
  \<^verbatim>\<open>code_samples[code_sample_id]\<close> is the only place that can raise.
\<close>

definition warn_if_duplicate :: "string \<Rightarrow> int \<Rightarrow> env \<Rightarrow> py_error + env" where
  "warn_if_duplicate code_sample_id line e =
     (if dict_contains (code_samples e) code_sample_id then
        (case dict_getitem (code_samples e) code_sample_id of
           Inl err \<Rightarrow> Inl err
         | Inr other \<Rightarrow>
             Inr (e\<lparr>warnings := warnings e @
                    [\<lparr>message = duplicate_message code_sample_id (docname other),
                      location = (env_docname e, line)\<rparr>]\<rparr>))
      else Inr e)"

text \<open>The dictionary \<^verbatim>\<open>code_sample\<close> that the directive builds.\<close>

definition build_code_sample :: "code_sample_directive \<Rightarrow> string \<Rightarrow> code_sample" where
  "build_code_sample d current_docname =
     (let code_sample_id = argument0 d;
          name = (case option_name d of None \<Rightarrow> code_sample_id | Some n \<Rightarrow> n);
          relevant_api_list =
            str_split (case option_relevant_api d of None \<Rightarrow> [] | Some s \<Rightarrow> s);
          description_node =
            \<lparr>ids = [code_sample_id @ ''-description''], astext = content_text d\<rparr>
      in \<lparr>ident = code_sample_id, name = name, description = description_node,
          relevant_api = relevant_api_list, docname = current_docname\<rparr>)"

definition CodeSampleDirective_run ::
  "code_sample_directive \<Rightarrow> env \<Rightarrow> py_error + (code_sample_node \<times> env)" where
  "CodeSampleDirective_run d e =
     (let code_sample_id = argument0 d;
          e1 = e\<lparr>orphans := List.insert (env_docname e) (orphans e)\<rparr>
      in case warn_if_duplicate code_sample_id (lineno d) e1 of
           Inl err \<Rightarrow> Inl err
         | Inr e2 \<Rightarrow>
             (let code_sample = build_code_sample d (env_docname e2)
              in Inr (\<lparr>node_id = code_sample_id, node_name = name code_sample,
                        node_description = description code_sample\<rparr>,
                      add_code_sample code_sample e2)))"

text \<open>
  \<^verbatim>\<open>CodeSampleListingDirective.run\<close>: the samples whose directory starts with the
  directory of the current document, as a definition list and as the entries of a hidden
  table of contents. The document is noted for re-reading. The \<^verbatim>\<open>print\<close> call writes to
  the standard output only and is left out.
\<close>

definition in_hierarchy :: "string \<Rightarrow> code_sample \<Rightarrow> bool" where
  "in_hierarchy current_docname code_sample =
     startswith (dirname (docname code_sample)) (dirname current_docname)"

record toctree =
  maxdepth :: nat
  hidden :: bool
  glob :: bool
  parent :: string
  entries :: "(string \<times> string) list"
  includefiles :: "string list"

record code_sample_listing =
  listing_dl :: "definition_list_item list"
  listing_toctree :: toctree

definition CodeSampleListingDirective_run :: "env \<Rightarrow> code_sample_listing \<times> env" where
  "CodeSampleListingDirective_run e =
     (let e1 = e\<lparr>reread_always := List.insert (env_docname e) (reread_always e)\<rparr>;
          dl = create_code_sample_definition_list
                 (filter (in_hierarchy (env_docname e)) (dict_values (code_samples e)));
          listed = filter (in_hierarchy (env_docname e))
                     (sorted_by_name (dict_values (code_samples e)));
          toc = \<lparr>maxdepth = 1, hidden = True, glob = False, parent = env_docname e,
                 entries = map (\<lambda>code_sample. (name code_sample, docname code_sample)) listed,
                 includefiles = map docname listed\<rparr>
      in (\<lparr>listing_dl = dl, listing_toctree = toc\<rparr>, e1))"

text \<open>
  \<^verbatim>\<open>ProcessRelatedCodeSamplesNode.run\<close> on one node: the samples whose
  \<^verbatim>\<open>"relevant-api"\<close> list holds the node's id. The node becomes an admonition with their
  definition list, or is removed when there is none.
\<close>

record admonition =
  title :: string
  classes :: "string list"
  samples_dl :: "definition_list_item list"

definition related_code_samples :: "env \<Rightarrow> string \<Rightarrow> code_sample list" where
  "related_code_samples e group_id =
     filter (\<lambda>code_sample. group_id \<in> set (relevant_api code_sample))
       (dict_values (code_samples e))"

definition ProcessRelatedCodeSamplesNode_run :: "env \<Rightarrow> string \<Rightarrow> admonition option" where
  "ProcessRelatedCodeSamplesNode_run e group_id =
     (let samples = related_code_samples e group_id
      in if length samples > 0 then
           Some \<lparr>title = ''Related code samples'',
                 classes = [''related-code-samples'', ''dropdown'', ''toggle-shown''],
                 samples_dl = create_code_sample_definition_list samples\<rparr>
         else None)"

subsection \<open>Equality of dictionaries\<close>

text \<open>
  \<^verbatim>\<open>a == b\<close> on dictionaries: the same number of items, and every item of \<^verbatim>\<open>a\<close> is found
  in \<^verbatim>\<open>b\<close> under its key. The order of insertion plays no part.
\<close>

definition dict_eq :: "('k, 'v) dict \<Rightarrow> ('k, 'v) dict \<Rightarrow> bool" where
  "dict_eq a b = (length a = length b \<and> list_all (\<lambda>(k, v). map_of b k = Some v) a)"

subsection \<open>Example data\<close>

text \<open>
  The two samples of the specification's example, a third sample in a directory whose
  name merely begins like theirs, two build shards with one sample and one category each,
  and a directive that gives no option.
\<close>

definition sample_blinky :: code_sample where
  "sample_blinky =
     \<lparr>ident = ''blinky'', name = ''Blinky'',
      description = \<lparr>ids = [''blinky-description''], astext = ''Blink an LED forever.''\<rparr>,
      relevant_api = [''gpio_interface''], docname = ''samples/basic/blinky''\<rparr>"

definition sample_abc :: code_sample where
  "sample_abc =
     \<lparr>ident = ''abc'', name = ''ABC'',
      description = \<lparr>ids = [''abc-description''], astext = ''The alphabet.''\<rparr>,
      relevant_api = [], docname = ''samples/basic/abc''\<rparr>"

definition sample_xyz :: code_sample where
  "sample_xyz =
     \<lparr>ident = ''xyz'', name = ''Xyz'',
      description = \<lparr>ids = [''xyz-description''], astext = ''Elsewhere.''\<rparr>,
      relevant_api = [''gpio_interface''], docname = ''samples/basicXYZ/xyz''\<rparr>"

definition example_registry :: "string \<Rightarrow> env" where
  "example_registry current =
     fold add_code_sample [sample_blinky, sample_abc] (initial_data current)"

definition shard_a :: env where
  "shard_a =
     add_code_sample_category ''Basic''
       \<lparr>ids = [''Basic-description''], astext = ''Basic samples.''\<rparr>
       (add_code_sample sample_blinky (initial_data ''samples/basic/blinky''))"

definition shard_b :: env where
  "shard_b =
     add_code_sample_category ''Drivers''
       \<lparr>ids = [''Drivers-description''], astext = ''Driver samples.''\<rparr>
       (add_code_sample sample_abc (initial_data ''samples/basic/abc''))"

definition bare_directive :: code_sample_directive where
  "bare_directive =
     \<lparr>argument0 = ''blinky'', option_name = None, option_relevant_api = None,
      content_text = ''Blink an LED forever.'', lineno = 1\<rparr>"

section \<open>Properties of the registry\<close>

subsection \<open>Registration\<close>

lemma code_samples_add_code_sample:
  "code_samples (add_code_sample s e) = AList.update (ident s) s (code_samples e)"
  by (simp add: add_code_sample_def dict_setitem_def)

lemma distinct_fold_add_code_sample:
  "distinct (map fst (code_samples e)) \<Longrightarrow>
   distinct (map fst (code_samples (fold add_code_sample samples e)))"
  by (induction samples arbitrary: e)
    (simp_all add: code_samples_add_code_sample distinct_update)

lemma keys_fold_add_code_sample:
  "fst ` set (code_samples (fold add_code_sample samples e)) =
   fst ` set (code_samples e) \<union> ident ` set samples"
  by (induction samples arbitrary: e)
    (auto simp: code_samples_add_code_sample dom_update)

lemma map_of_fold_add_code_sample:
  "map_of (code_samples (fold add_code_sample samples e)) i =
   (if i \<in> ident ` set samples then Some (last (filter (\<lambda>s. ident s = i) samples))
    else map_of (code_samples e) i)"
proof (induction samples arbitrary: e)
  case Nil
  then show ?case by simp
next
  case (Cons s samples)
  show ?case
    by (simp add: Cons.IH code_samples_add_code_sample update_conv')
      (auto simp: filter_empty_conv image_iff)
qed

text \<open>
  Claim C1. Whatever the sequence of samples handed to \<^verbatim>\<open>add_code_sample\<close>, starting from
  the empty registry of \<^verbatim>\<open>initial_data\<close>: the keys of the final registry are pairwise
  distinct, they are exactly the ids that occur in the sequence, and the entry under an id
  is the last sample of the sequence that carries this id.
\<close>

theorem add_code_sample_last_write_wins:
  "distinct (map fst (code_samples (fold add_code_sample samples (initial_data d)))) \<and>
   set (map fst (code_samples (fold add_code_sample samples (initial_data d)))) =
     ident ` set samples \<and>
   dict_get (code_samples (fold add_code_sample samples (initial_data d))) i =
     (if i \<in> ident ` set samples then Some (last (filter (\<lambda>s. ident s = i) samples))
      else None)"
proof -
  have e: "code_samples (initial_data d) = []"
    by (simp add: initial_data_def)
  show ?thesis
    using distinct_fold_add_code_sample [of "initial_data d" samples]
      keys_fold_add_code_sample [of samples "initial_data d"]
      map_of_fold_add_code_sample [of samples "initial_data d" i]
    by (simp add: e dict_get_def)
qed

lemma dict_contains_iff: "dict_contains d k \<longleftrightarrow> map_of d k \<noteq> None"
  by (simp add: dict_contains_def map_of_eq_None_iff)

lemma warn_if_duplicate_result:
  "warn_if_duplicate i line e =
     Inr (e\<lparr>warnings := warnings e @
            (case dict_get (code_samples e) i of
               None \<Rightarrow> []
             | Some other \<Rightarrow>
                 [\<lparr>message = duplicate_message i (docname other),
                   location = (env_docname e, line)\<rparr>])\<rparr>)"
  by (cases "map_of (code_samples e) i")
    (simp_all add: warn_if_duplicate_def dict_contains_iff dict_getitem_def dict_get_def)

lemma CodeSampleDirective_run_result:
  "CodeSampleDirective_run d e =
     Inr (\<lparr>node_id = argument0 d, node_name = name (build_code_sample d (env_docname e)),
           node_description = description (build_code_sample d (env_docname e))\<rparr>,
          add_code_sample (build_code_sample d (env_docname e))
            (e\<lparr>orphans := List.insert (env_docname e) (orphans e),
               warnings := warnings e @
                 (case dict_get (code_samples e) (argument0 d) of
                    None \<Rightarrow> []
                  | Some other \<Rightarrow>
                      [\<lparr>message = duplicate_message (argument0 d) (docname other),
                        location = (env_docname e, lineno d)\<rparr>])\<rparr>))"
  by (simp add: CodeSampleDirective_run_def warn_if_duplicate_result Let_def
      split: option.split)

lemma ident_build_code_sample: "ident (build_code_sample d n) = argument0 d"
  by (simp add: build_code_sample_def Let_def)

text \<open>
  Claim C2. \<^verbatim>\<open>CodeSampleDirective.run\<close> never raises: it always returns a node and a new
  environment. When the id is already registered, exactly one warning is appended to the
  log, and its message ends with the \<^verbatim>\<open>docname\<close> of the sample registered before; when
  the id is fresh, the log is unchanged. In both cases the registry then holds the newly
  built sample under the id.
\<close>

theorem code_sample_duplicate_warning:
  "\<exists>node e'. CodeSampleDirective_run d e = Inr (node, e') \<and>
     warnings e' = warnings e @
       (case dict_get (code_samples e) (argument0 d) of
          None \<Rightarrow> []
        | Some other \<Rightarrow>
            [\<lparr>message = ''Code sample '' @ argument0 d @ '' already exists. '' @
                         ''Other instance in '' @ docname other,
              location = (env_docname e, lineno d)\<rparr>]) \<and>
     dict_get (code_samples e') (argument0 d) = Some (build_code_sample d (env_docname e))"
  by (simp add: CodeSampleDirective_run_result add_code_sample_def dict_setitem_def
      dict_get_def update_conv' ident_build_code_sample duplicate_message_def
      split: option.split)

subsection \<open>Invalidation of a document\<close>

text \<open>
  Claim C3. For every environment and every document \<open>d\<close>, the items of the registry after
  \<^verbatim>\<open>clear_doc\<close> are exactly the items before whose sample was declared in a document
  other than \<open>d\<close>: every sample of \<open>d\<close> is gone and no other sample is. The categories
  are the same dictionary as before.
\<close>

theorem clear_doc_removes_exactly_the_document:
  "set (code_samples (clear_doc d e)) =
     {(sample_id, sample_data).
        (sample_id, sample_data) \<in> set (code_samples e) \<and> docname sample_data \<noteq> d} \<and>
   code_samples_categories (clear_doc d e) = code_samples_categories e"
  by (auto simp: clear_doc_def)

subsection \<open>Cross-references\<close>

text \<open>
  Claim C4. For a reference of type \<^verbatim>\<open>code-sample\<close>: when the target is not registered,
  \<^verbatim>\<open>resolve_xref\<close> returns \<^verbatim>\<open>None\<close> (and the model has no exception on this path); when it
  is registered, a link is returned whose text is the text the reference carried if the
  reference is explicit, and the name of the sample otherwise.
\<close>

theorem resolve_xref_display_text:
  "(case dict_get (code_samples e) target of
      None \<Rightarrow> resolve_xref e fromdocname ''code-sample'' target node contnode = None
    | Some sample \<Rightarrow>
        (\<exists>link. resolve_xref e fromdocname ''code-sample'' target node contnode = Some link \<and>
           contnode_astext (ref_child link) =
             (if truthy (refexplicit node) then contnode_astext contnode else name sample)))"
  by (simp add: resolve_xref_def make_refnode_def Let_def split: option.split)

subsection \<open>Merging build shards\<close>

lemma update_new_key: "k \<notin> fst ` set d \<Longrightarrow> AList.update k v d = d @ [(k, v)]"
  by (induction d) auto

lemma map_of_dict_update:
  "distinct (map fst other) \<Longrightarrow> map_of (dict_update d other) = map_of d ++ map_of other"
proof (induction other arbitrary: d)
  case Nil
  then show ?case by (simp add: dict_update_def)
next
  case (Cons p other)
  obtain k v where p: "p = (k, v)" by (cases p)
  from Cons.prems p have k: "k \<notin> fst ` set other" and d: "distinct (map fst other)"
    by auto
  have "map_of (dict_update d (p # other)) = map_of (dict_update (AList.update k v d) other)"
    by (simp add: dict_update_def dict_setitem_def p)
  also have "\<dots> = (map_of d)(k \<mapsto> v) ++ map_of other"
    by (simp only: Cons.IH [OF d] update_conv')
  also have "\<dots> = map_of d ++ map_of (p # other)"
  proof (rule ext)
    fix x
    from k have "map_of other k = None"
      by (simp add: map_of_eq_None_iff)
    then show "((map_of d)(k \<mapsto> v) ++ map_of other) x = (map_of d ++ map_of (p # other)) x"
      by (auto simp: map_add_def p split: option.split)
  qed
  finally show ?case .
qed

lemma keys_dict_update:
  "fst ` set (dict_update d other) = fst ` set d \<union> fst ` set other"
proof (induction other arbitrary: d)
  case Nil
  then show ?case by (simp add: dict_update_def)
next
  case (Cons p other)
  have "dict_update d (p # other) = dict_update (AList.update (fst p) (snd p) d) other"
    by (simp add: dict_update_def dict_setitem_def case_prod_beta)
  then show ?case
    by (auto simp: Cons.IH dom_update)
qed

lemma distinct_dict_update:
  "distinct (map fst d) \<Longrightarrow> distinct (map fst (dict_update d other))"
proof (induction other arbitrary: d)
  case Nil
  then show ?case by (simp add: dict_update_def)
next
  case (Cons p other)
  have "dict_update d (p # other) = dict_update (AList.update (fst p) (snd p) d) other"
    by (simp add: dict_update_def dict_setitem_def case_prod_beta)
  with Cons show ?case
    by (simp add: distinct_update)
qed

lemma dict_update_disjoint:
  "distinct (map fst other) \<Longrightarrow> fst ` set d \<inter> fst ` set other = {} \<Longrightarrow>
   dict_update d other = d @ other"
proof (induction other arbitrary: d)
  case Nil
  then show ?case by (simp add: dict_update_def)
next
  case (Cons p other)
  have step: "dict_update d (p # other) = dict_update (AList.update (fst p) (snd p) d) other"
    by (simp add: dict_update_def dict_setitem_def case_prod_beta)
  from Cons.prems have new: "fst p \<notin> fst ` set d" by auto
  then have upd: "AList.update (fst p) (snd p) d = d @ [p]"
    by (simp add: update_new_key)
  from Cons.prems have "distinct (map fst other)"
    and "fst ` set (d @ [p]) \<inter> fst ` set other = {}"
    by auto
  then have "dict_update (d @ [p]) other = (d @ [p]) @ other"
    by (rule Cons.IH)
  with step upd show ?case by simp
qed

lemma dict_eq_append_commute:
  assumes "distinct (map fst a)" "distinct (map fst b)" "fst ` set a \<inter> fst ` set b = {}"
  shows "dict_eq (a @ b) (b @ a)"
proof -
  have "map_of (b @ a) k = Some v" if "(k, v) \<in> set a \<or> (k, v) \<in> set b" for k v
  proof (cases "(k, v) \<in> set b")
    case True
    with assms(2) show ?thesis by simp
  next
    case False
    with that have a: "(k, v) \<in> set a" by simp
    with assms(3) have "k \<notin> fst ` set b" by force
    then have "map_of b k = None" by (simp add: map_of_eq_None_iff)
    with a assms(1) show ?thesis by (simp add: map_add_def)
  qed
  then show ?thesis
    by (auto simp: dict_eq_def list_all_iff)
qed

lemma dict_update_commute:
  assumes "distinct (map fst a)" "distinct (map fst b)" "fst ` set a \<inter> fst ` set b = {}"
  shows "dict_eq (dict_update a b) (dict_update b a) \<and>
    dict_get (dict_update a b) k = dict_get (dict_update b a) k"
proof -
  from assms(3) have disj': "fst ` set b \<inter> fst ` set a = {}"
    by blast
  have ab: "dict_update a b = a @ b"
    using assms(2,3) by (rule dict_update_disjoint)
  have ba: "dict_update b a = b @ a"
    using assms(1) disj' by (rule dict_update_disjoint)
  have "map_of a ++ map_of b = map_of b ++ map_of a"
    using assms(3) by (intro map_add_comm) (simp add: dom_map_of_conv_image_fst)
  then have "map_of (a @ b) k = map_of (b @ a) k"
    by simp
  with ab ba dict_eq_append_commute [OF assms] show ?thesis
    by (simp add: dict_get_def)
qed

text \<open>
  Claim C5. \<^verbatim>\<open>merge_domaindata\<close> of the data of another shard (a well-formed dictionary:
  its keys are pairwise distinct) yields, for the samples and for the categories alike, the
  union of the keys, and under every key the entry of the incoming shard when it has one
  and the entry already present otherwise. When the two key sets are disjoint, the number
  of entries is the sum of the two.
\<close>

theorem merge_domaindata_incoming_wins:
  assumes "distinct (map fst (other_code_samples otherdata))"
    and "distinct (map fst (other_code_samples_categories otherdata))"
  shows
    "set (map fst (code_samples (merge_domaindata otherdata e))) =
       set (map fst (code_samples e)) \<union> set (map fst (other_code_samples otherdata)) \<and>
     set (map fst (code_samples_categories (merge_domaindata otherdata e))) =
       set (map fst (code_samples_categories e)) \<union>
       set (map fst (other_code_samples_categories otherdata)) \<and>
     dict_get (code_samples (merge_domaindata otherdata e)) i =
       (case dict_get (other_code_samples otherdata) i of
          Some incoming \<Rightarrow> Some incoming
        | None \<Rightarrow> dict_get (code_samples e) i) \<and>
     dict_get (code_samples_categories (merge_domaindata otherdata e)) n =
       (case dict_get (other_code_samples_categories otherdata) n of
          Some incoming \<Rightarrow> Some incoming
        | None \<Rightarrow> dict_get (code_samples_categories e) n) \<and>
     (fst ` set (code_samples e) \<inter> fst ` set (other_code_samples otherdata) = {} \<longrightarrow>
        dict_len (code_samples (merge_domaindata otherdata e)) =
          dict_len (code_samples e) + dict_len (other_code_samples otherdata)) \<and>
     (fst ` set (code_samples_categories e) \<inter>
        fst ` set (other_code_samples_categories otherdata) = {} \<longrightarrow>
        dict_len (code_samples_categories (merge_domaindata otherdata e)) =
          dict_len (code_samples_categories e) +
          dict_len (other_code_samples_categories otherdata))"
  using assms
  by (simp add: merge_domaindata_def dict_get_def map_of_dict_update map_add_def
      dict_update_disjoint dict_len_def keys_dict_update split: option.split)

text \<open>The merge of \<open>shard_b\<close> into \<open>shard_a\<close>, two shards with one sample each.\<close>

theorem merge_domaindata_incoming_wins_witness:
  "distinct (map fst (other_code_samples (data_of shard_b))) \<and>
   distinct (map fst (other_code_samples_categories (data_of shard_b))) \<and>
   fst ` set (code_samples shard_a) \<inter> fst ` set (other_code_samples (data_of shard_b)) = {} \<and>
   fst ` set (code_samples_categories shard_a) \<inter>
     fst ` set (other_code_samples_categories (data_of shard_b)) = {} \<and>
   dict_get (code_samples (merge_domaindata (data_of shard_b) shard_a)) ''abc'' =
     Some sample_abc \<and>
   dict_get (code_samples (merge_domaindata (data_of shard_b) shard_a)) ''blinky'' =
     Some sample_blinky \<and>
   dict_len (code_samples (merge_domaindata (data_of shard_b) shard_a)) = 2 \<and>
   dict_len (code_samples_categories (merge_domaindata (data_of shard_b) shard_a)) = 2"
proof -
  have a: "code_samples shard_a = [(''blinky'', sample_blinky)]"
    by (simp add: shard_a_def add_code_sample_category_def add_code_sample_def
        dict_setitem_def initial_data_def sample_blinky_def)
  have b: "other_code_samples (data_of shard_b) = [(''abc'', sample_abc)]"
    by (simp add: shard_b_def data_of_def add_code_sample_category_def add_code_sample_def
        dict_setitem_def initial_data_def sample_abc_def)
  have ca: "map fst (code_samples_categories shard_a) = [''Basic'']"
    by (simp add: shard_a_def add_code_sample_category_def add_code_sample_def
        dict_setitem_def initial_data_def)
  have cb: "map fst (other_code_samples_categories (data_of shard_b)) = [''Drivers'']"
    by (simp add: shard_b_def data_of_def add_code_sample_category_def add_code_sample_def
        dict_setitem_def initial_data_def)
  have la: "length (code_samples_categories shard_a) = 1"
    using arg_cong [OF ca, of length] by simp
  have lb: "length (other_code_samples_categories (data_of shard_b)) = 1"
    using arg_cong [OF cb, of length] by simp
  have sa: "fst ` set (code_samples_categories shard_a) = {''Basic''}"
    using arg_cong [OF ca, of set] by simp
  have sb: "fst ` set (other_code_samples_categories (data_of shard_b)) = {''Drivers''}"
    using arg_cong [OF cb, of set] by simp
  have d1: "distinct (map fst (other_code_samples (data_of shard_b)))"
    by (simp add: b)
  have d2: "distinct (map fst (other_code_samples_categories (data_of shard_b)))"
    by (simp add: cb)
  show ?thesis
    using merge_domaindata_incoming_wins [OF d1 d2, of shard_a "''abc''" "''Basic''"]
      merge_domaindata_incoming_wins [OF d1 d2, of shard_a "''blinky''" "''Basic''"]
    by (simp add: a b cb sa sb la lb dict_get_def dict_len_def sample_blinky_def
        sample_abc_def)
qed

text \<open>
  Claim C9. For two shards whose registries have no id in common, merging the second into
  the first and merging the first into the second give equal dictionaries, in the sense of
  Python's \<^verbatim>\<open>==\<close> and as lookups under every id. (The order of insertion of the two results
  differs; equality of dictionaries does not look at it.)
\<close>

theorem merge_domaindata_commutes_on_disjoint_shards:
  assumes "distinct (map fst (code_samples a))" and "distinct (map fst (code_samples b))"
    and "fst ` set (code_samples a) \<inter> fst ` set (code_samples b) = {}"
  shows
    "dict_eq (code_samples (merge_domaindata (data_of b) a))
       (code_samples (merge_domaindata (data_of a) b)) \<and>
     dict_get (code_samples (merge_domaindata (data_of b) a)) i =
       dict_get (code_samples (merge_domaindata (data_of a) b)) i \<and>
     (distinct (map fst (code_samples_categories a)) \<and>
      distinct (map fst (code_samples_categories b)) \<and>
      fst ` set (code_samples_categories a) \<inter> fst ` set (code_samples_categories b) = {} \<longrightarrow>
        dict_eq (code_samples_categories (merge_domaindata (data_of b) a))
          (code_samples_categories (merge_domaindata (data_of a) b)) \<and>
        dict_get (code_samples_categories (merge_domaindata (data_of b) a)) n =
          dict_get (code_samples_categories (merge_domaindata (data_of a) b)) n)"
proof -
  have samples: "code_samples (merge_domaindata (data_of y) x) =
      dict_update (code_samples x) (code_samples y)" for x y
    by (simp add: merge_domaindata_def data_of_def)
  have categories: "code_samples_categories (merge_domaindata (data_of y) x) =
      dict_update (code_samples_categories x) (code_samples_categories y)" for x y
    by (simp add: merge_domaindata_def data_of_def)
  show ?thesis
    using dict_update_commute [OF assms, of i]
      dict_update_commute [of "code_samples_categories a" "code_samples_categories b" n]
    by (simp add: samples categories)
qed

text \<open>The two shards merged in both orders.\<close>

theorem merge_domaindata_commutes_on_disjoint_shards_witness:
  "distinct (map fst (code_samples shard_a)) \<and> distinct (map fst (code_samples shard_b)) \<and>
   fst ` set (code_samples shard_a) \<inter> fst ` set (code_samples shard_b) = {} \<and>
   distinct (map fst (code_samples_categories shard_a)) \<and>
   distinct (map fst (code_samples_categories shard_b)) \<and>
   fst ` set (code_samples_categories shard_a) \<inter>
     fst ` set (code_samples_categories shard_b) = {} \<and>
   dict_eq (code_samples (merge_domaindata (data_of shard_b) shard_a))
     (code_samples (merge_domaindata (data_of shard_a) shard_b)) \<and>
   dict_eq (code_samples_categories (merge_domaindata (data_of shard_b) shard_a))
     (code_samples_categories (merge_domaindata (data_of shard_a) shard_b)) \<and>
   dict_get (code_samples (merge_domaindata (data_of shard_b) shard_a)) ''abc'' =
     dict_get (code_samples (merge_domaindata (data_of shard_a) shard_b)) ''abc''"
proof -
  have a: "map fst (code_samples shard_a) = [''blinky'']"
    by (simp add: shard_a_def add_code_sample_category_def add_code_sample_def
        dict_setitem_def initial_data_def sample_blinky_def)
  have b: "map fst (code_samples shard_b) = [''abc'']"
    by (simp add: shard_b_def add_code_sample_category_def add_code_sample_def
        dict_setitem_def initial_data_def sample_abc_def)
  have ca: "map fst (code_samples_categories shard_a) = [''Basic'']"
    by (simp add: shard_a_def add_code_sample_category_def add_code_sample_def
        dict_setitem_def initial_data_def)
  have cb: "map fst (code_samples_categories shard_b) = [''Drivers'']"
    by (simp add: shard_b_def add_code_sample_category_def add_code_sample_def
        dict_setitem_def initial_data_def)
  have sa: "fst ` set (code_samples shard_a) = {''blinky''}"
    using arg_cong [OF a, of set] by simp
  have sb: "fst ` set (code_samples shard_b) = {''abc''}"
    using arg_cong [OF b, of set] by simp
  have sca: "fst ` set (code_samples_categories shard_a) = {''Basic''}"
    using arg_cong [OF ca, of set] by simp
  have scb: "fst ` set (code_samples_categories shard_b) = {''Drivers''}"
    using arg_cong [OF cb, of set] by simp
  have d1: "distinct (map fst (code_samples shard_a))" by (simp add: a)
  have d2: "distinct (map fst (code_samples shard_b))" by (simp add: b)
  have d3: "fst ` set (code_samples shard_a) \<inter> fst ` set (code_samples shard_b) = {}"
    by (simp add: sa sb)
  have d4: "distinct (map fst (code_samples_categories shard_a))" by (simp add: ca)
  have d5: "distinct (map fst (code_samples_categories shard_b))" by (simp add: cb)
  have d6: "fst ` set (code_samples_categories shard_a) \<inter>
      fst ` set (code_samples_categories shard_b) = {}"
    by (simp add: sca scb)
  from d1 d2 d3 d4 d5 d6
    merge_domaindata_commutes_on_disjoint_shards [OF d1 d2 d3, of "''abc''" "''Basic''"]
  show ?thesis by blast
qed

subsection \<open>Listings\<close>

lemma term_text_sample_dli: "(\<lambda>item. casefold (term_text item)) \<circ> sample_dli = (\<lambda>x. casefold (name x))"
  by (rule ext) (simp add: sample_dli_def)

lemma sorted_create_code_sample_definition_list:
  "sorted (map (\<lambda>item. casefold (term_text item)) (create_code_sample_definition_list samples))"
  by (simp add: create_code_sample_definition_list_def sorted_by_name_def
      term_text_sample_dli)

lemma mset_create_code_sample_definition_list:
  "mset (create_code_sample_definition_list samples) = mset (map sample_dli samples)"
  by (simp add: create_code_sample_definition_list_def sorted_by_name_def)

lemma stable_create_code_sample_definition_list:
  "filter (\<lambda>item. casefold (term_text item) = k) (create_code_sample_definition_list samples) =
   map sample_dli (filter (\<lambda>x. casefold (name x) = k) samples)"
proof -
  have "filter (\<lambda>item. casefold (term_text item) = k) (map sample_dli xs) =
        map sample_dli (filter (\<lambda>x. casefold (name x) = k) xs)" for xs
    by (induction xs) (simp_all add: sample_dli_def)
  then show ?thesis
    by (simp add: create_code_sample_definition_list_def sorted_by_name_def sort_key_stable)
qed

lemma listing_dl_run:
  "listing_dl (fst (CodeSampleListingDirective_run e)) =
     create_code_sample_definition_list
       (filter (in_hierarchy (env_docname e)) (dict_values (code_samples e)))"
  by (simp add: CodeSampleListingDirective_run_def Let_def)

lemma set_sorted_by_name: "set (sorted_by_name xs) = set xs"
  by (simp add: sorted_by_name_def)

text \<open>
  Claim C6. The definition list of \<^verbatim>\<open>CodeSampleListingDirective.run\<close> holds, with their
  multiplicity, exactly the items of the registered samples whose \<^verbatim>\<open>dirname\<close> starts with
  the \<^verbatim>\<open>dirname\<close> of the current document, and the case-folded names of its terms are in
  ascending order. For the registry of the specification's example the terms are
  \<open>ABC\<close>, \<open>Blinky\<close>, both when the listing document lies in \<open>samples/basic\<close> and when it is
  the document \<open>samples/basic\<close> itself.
\<close>

theorem code_sample_listing_filtered_and_sorted:
  "mset (listing_dl (fst (CodeSampleListingDirective_run e))) =
     mset (map sample_dli
       (filter (\<lambda>sample. prefix (dirname (env_docname e)) (dirname (docname sample)))
          (dict_values (code_samples e)))) \<and>
   sorted (map (\<lambda>item. casefold (term_text item))
     (listing_dl (fst (CodeSampleListingDirective_run e)))) \<and>
   map term_text (listing_dl (fst (CodeSampleListingDirective_run
     (example_registry ''samples/basic/index'')))) = [''ABC'', ''Blinky''] \<and>
   map term_text (listing_dl (fst (CodeSampleListingDirective_run
     (example_registry ''samples/basic'')))) = [''ABC'', ''Blinky'']"
proof -
  have sel: "in_hierarchy (env_docname e) =
      (\<lambda>sample. prefix (dirname (env_docname e)) (dirname (docname sample)))"
    by (rule ext) (simp add: in_hierarchy_def startswith_def)
  have a: "map term_text (listing_dl (fst (CodeSampleListingDirective_run
     (example_registry ''samples/basic/index'')))) = [''ABC'', ''Blinky'']"
    by code_simp
  have b: "map term_text (listing_dl (fst (CodeSampleListingDirective_run
     (example_registry ''samples/basic'')))) = [''ABC'', ''Blinky'']"
    by code_simp
  have m: "mset (listing_dl (fst (CodeSampleListingDirective_run e))) =
     mset (map sample_dli
       (filter (\<lambda>sample. prefix (dirname (env_docname e)) (dirname (docname sample)))
          (dict_values (code_samples e))))"
    by (simp only: listing_dl_run mset_create_code_sample_definition_list sel)
  have s: "sorted (map (\<lambda>item. casefold (term_text item))
     (listing_dl (fst (CodeSampleListingDirective_run e))))"
    by (simp only: listing_dl_run sorted_create_code_sample_definition_list)
  from m s a b show ?thesis
    by (intro conjI)
qed

text \<open>
  Claim C7. \<^verbatim>\<open>ProcessRelatedCodeSamplesNode.run\<close> removes the node exactly when no
  registered sample has the group id in its \<^verbatim>\<open>relevant-api\<close> list. Otherwise the admonition
  lists, with their multiplicity, exactly the samples that have it, through the same
  \<^verbatim>\<open>create_code_sample_definition_list\<close> as the listing directive, hence in ascending order
  of the case-folded names.
\<close>

theorem related_code_samples_selected_and_sorted:
  "(case ProcessRelatedCodeSamplesNode_run e group_id of
      None \<Rightarrow>
        filter (\<lambda>sample. group_id \<in> set (relevant_api sample))
          (dict_values (code_samples e)) = []
    | Some adm \<Rightarrow>
        filter (\<lambda>sample. group_id \<in> set (relevant_api sample))
          (dict_values (code_samples e)) \<noteq> [] \<and>
        mset (samples_dl adm) =
          mset (map sample_dli
            (filter (\<lambda>sample. group_id \<in> set (relevant_api sample))
               (dict_values (code_samples e)))) \<and>
        sorted (map (\<lambda>item. casefold (term_text item)) (samples_dl adm)) \<and>
        samples_dl adm =
          create_code_sample_definition_list
            (filter (\<lambda>sample. group_id \<in> set (relevant_api sample))
               (dict_values (code_samples e))))"
  by (simp add: ProcessRelatedCodeSamplesNode_run_def related_code_samples_def Let_def
      mset_create_code_sample_definition_list sorted_create_code_sample_definition_list)

subsection \<open>Defaults of the options\<close>

text \<open>
  Claim C8. After \<^verbatim>\<open>CodeSampleDirective.run\<close> the registry holds a sample under the
  directive's id; its name is the id when the directive has no \<^verbatim>\<open>:name:\<close> option, and its
  list of relevant APIs is empty when the directive has no \<^verbatim>\<open>:relevant-api:\<close> option.
\<close>

theorem code_sample_option_defaults:
  "\<exists>node e' sample.
     CodeSampleDirective_run d e = Inr (node, e') \<and>
     dict_get (code_samples e') (argument0 d) = Some sample \<and>
     (option_name d = None \<longrightarrow> name sample = argument0 d) \<and>
     (option_relevant_api d = None \<longrightarrow> relevant_api sample = [])"
  by (simp add: CodeSampleDirective_run_result add_code_sample_def dict_setitem_def
      dict_get_def update_conv' ident_build_code_sample)
    (simp add: build_code_sample_def Let_def str_split_def)

text \<open>A directive without options, run on the empty registry.\<close>

theorem code_sample_option_defaults_witness:
  "option_name bare_directive = None \<and> option_relevant_api bare_directive = None \<and>
   (\<exists>node e' sample.
     CodeSampleDirective_run bare_directive (initial_data ''samples/basic/blinky'') =
       Inr (node, e') \<and>
     dict_get (code_samples e') ''blinky'' = Some sample \<and>
     name sample = ''blinky'' \<and> relevant_api sample = [])"
  using code_sample_option_defaults [of bare_directive "initial_data ''samples/basic/blinky''"]
  by (simp add: bare_directive_def)

subsection \<open>The directory filter\<close>

text \<open>
  Claim C10. The filter of the listing is a plain prefix test on strings: a registered
  sample whose \<^verbatim>\<open>dirname\<close> has the \<^verbatim>\<open>dirname\<close> of the listing document as a prefix is in
  the definition list and in the table of contents, in particular every sample whose
  directory is the directory of the listing document. A sample in \<open>samples/basicXYZ\<close> is
  listed by a document in \<open>samples/basic\<close>.
\<close>

theorem listing_filter_is_string_prefix:
  "(sample \<in> set (dict_values (code_samples e)) \<and>
    prefix (dirname (env_docname e)) (dirname (docname sample)) \<longrightarrow>
      sample_dli sample \<in> set (listing_dl (fst (CodeSampleListingDirective_run e))) \<and>
      (name sample, docname sample) \<in>
        set (entries (listing_toctree (fst (CodeSampleListingDirective_run e)))) \<and>
      docname sample \<in>
        set (includefiles (listing_toctree (fst (CodeSampleListingDirective_run e))))) \<and>
   (sample \<in> set (dict_values (code_samples e)) \<and>
    dirname (docname sample) = dirname (env_docname e) \<longrightarrow>
      sample_dli sample \<in> set (listing_dl (fst (CodeSampleListingDirective_run e)))) \<and>
   dirname ''samples/basicXYZ/xyz'' = ''samples/basicXYZ'' \<and>
   dirname ''samples/basic/index'' = ''samples/basic'' \<and>
   map reftarget (listing_dl (fst (CodeSampleListingDirective_run
     (add_code_sample sample_xyz (example_registry ''samples/basic/index''))))) =
     [''abc'', ''blinky'', ''xyz'']"
proof -
  have ex: "dirname ''samples/basicXYZ/xyz'' = ''samples/basicXYZ'' \<and>
   dirname ''samples/basic/index'' = ''samples/basic'' \<and>
   map reftarget (listing_dl (fst (CodeSampleListingDirective_run
     (add_code_sample sample_xyz (example_registry ''samples/basic/index''))))) =
     [''abc'', ''blinky'', ''xyz'']"
    by code_simp
  have dl: "set (listing_dl (fst (CodeSampleListingDirective_run e))) =
      sample_dli ` {s \<in> set (dict_values (code_samples e)). in_hierarchy (env_docname e) s}"
    by (simp add: listing_dl_run create_code_sample_definition_list_def set_sorted_by_name)
  have toc: "set (entries (listing_toctree (fst (CodeSampleListingDirective_run e)))) =
      (\<lambda>s. (name s, docname s)) `
        {s \<in> set (dict_values (code_samples e)). in_hierarchy (env_docname e) s}"
    by (auto simp: CodeSampleListingDirective_run_def Let_def set_sorted_by_name)
  have inc: "set (includefiles (listing_toctree (fst (CodeSampleListingDirective_run e)))) =
      docname ` {s \<in> set (dict_values (code_samples e)). in_hierarchy (env_docname e) s}"
    by (auto simp: CodeSampleListingDirective_run_def Let_def set_sorted_by_name)
  show ?thesis
    using ex by (auto simp: dl toc inc in_hierarchy_def startswith_def)
qed

text \<open>The sample of \<open>samples/basicXYZ\<close> in the listing of \<open>samples/basic/index\<close>.\<close>

theorem listing_filter_is_string_prefix_witness:
  "sample_xyz \<in> set (dict_values (code_samples
      (add_code_sample sample_xyz (example_registry ''samples/basic/index'')))) \<and>
   prefix (dirname ''samples/basic/index'') (dirname (docname sample_xyz)) \<and>
   sample_dli sample_xyz \<in> set (listing_dl (fst (CodeSampleListingDirective_run
      (add_code_sample sample_xyz (example_registry ''samples/basic/index''))))) \<and>
   sample_abc \<in> set (dict_values (code_samples
      (add_code_sample sample_xyz (example_registry ''samples/basic/index'')))) \<and>
   dirname (docname sample_abc) = dirname ''samples/basic/index'' \<and>
   sample_dli sample_abc \<in> set (listing_dl (fst (CodeSampleListingDirective_run
      (add_code_sample sample_xyz (example_registry ''samples/basic/index'')))))"
proof -
  have m: "sample_xyz \<in> set (dict_values (code_samples
      (add_code_sample sample_xyz (example_registry ''samples/basic/index''))))"
    by code_simp
  have m': "sample_abc \<in> set (dict_values (code_samples
      (add_code_sample sample_xyz (example_registry ''samples/basic/index''))))"
    by code_simp
  have d: "env_docname (add_code_sample sample_xyz (example_registry ''samples/basic/index'')) =
      ''samples/basic/index''"
    by code_simp
  have p: "prefix (dirname ''samples/basic/index'') (dirname (docname sample_xyz))"
    by code_simp
  have q: "dirname (docname sample_abc) = dirname ''samples/basic/index''"
    by code_simp
  show ?thesis
    using listing_filter_is_string_prefix
        [of sample_xyz "add_code_sample sample_xyz (example_registry ''samples/basic/index'')"]
      listing_filter_is_string_prefix
        [of sample_abc "add_code_sample sample_xyz (example_registry ''samples/basic/index'')"]
      m m' p q
    by (simp add: d)
qed

end
